theory Spec2Isabelle
  imports Main "HOL-Library.Word" "HOL-Library.AList"
begin

unbundle bit_operations_syntax

section \<open>Data of the relay\<close>

text \<open>
  The room actor is the class \<^verbatim>\<open>YjsPartyServer\<close> (hibernation compatible variant); the
  client provider is the class \<^verbatim>\<open>YjsPartyProvider\<close>. Both are written against imported
  packages that are not part of the repository: \<^verbatim>\<open>lib0\<close> (binary encoding),
  \<^verbatim>\<open>y-protocols/sync\<close>, \<^verbatim>\<open>yjs\<close> and the built-in \<^verbatim>\<open>JSON\<close> object. The
  two small codecs are written out below as the packages publish them; the CRDT document
  and the JSON text format stay parameters of every handler (record \<open>libs\<close>).

  A \<^verbatim>\<open>Uint8Array\<close> is a list of 8-bit words. A JavaScript string is represented by
  its UTF-8 bytes, one \<open>char\<close> per byte. A connection is represented by its
  \<^verbatim>\<open>connection.id\<close>.
\<close>

type_synonym byte = "8 word"
type_synonym bytes = "byte list"
type_synonym conn_id = string

datatype error =
    UnexpectedEndOfArray
  | IntegerOutOfRange
  | RangeError
  | UnknownSyncMessageType
  | TypeError
  | UpdateError
  | StorageError

datatype json =
    JNull
  | JBool bool
  | JNum int
  | JStr string
  | JArr "json list"
  | JObj "(string \<times> json) list"

text \<open>
  Property read \<^verbatim>\<open>value.key\<close> on a parsed JSON value; \<open>None\<close> is \<^verbatim>\<open>undefined\<close>.
  A parsed object holds each key once.
\<close>

fun json_get :: "string \<Rightarrow> json \<Rightarrow> json option" where
  "json_get k (JObj kvs) = map_of kvs k"
| "json_get k _ = None"

text \<open>
  The imported CRDT and JSON functions. \<open>JSON_parse\<close> returns \<open>None\<close> where
  \<^verbatim>\<open>JSON.parse\<close> throws a SyntaxError; \<open>applyUpdate\<close> returns \<open>None\<close> where
  \<^verbatim>\<open>Y.applyUpdate\<close> throws (a corrupt update), and the document is then taken to be
  as it was. \<^verbatim>\<open>Y.encodeStateAsUpdate(doc)\<close> with one argument is
  \<^verbatim>\<open>Y.encodeStateAsUpdate(doc, new Uint8Array([0]))\<close>, the diff against the encoded empty
  state vector.
\<close>

record 'doc libs =
  newDoc :: 'doc
  applyUpdate :: "'doc \<Rightarrow> bytes \<Rightarrow> 'doc option"
  encodeStateVector :: "'doc \<Rightarrow> bytes"
  encodeStateAsUpdate :: "'doc \<Rightarrow> bytes \<Rightarrow> bytes"
  JSON_parse :: "string \<Rightarrow> json option"
  JSON_stringify :: "json \<Rightarrow> string"

definition emptyStateVector :: bytes where
  "emptyStateVector = [0]"

subsection \<open>lib0 encoding and decoding\<close>

definition MAX_SAFE_INTEGER :: nat where
  "MAX_SAFE_INTEGER = 2 ^ 53 - 1"

text \<open>
  \<^verbatim>\<open>decoding.readVarUint\<close>: seven bits per byte, least significant group first, the top
  bit says that another byte follows. A decoder is the list of the bytes not yet read;
  the result is the number and the decoder after it.
\<close>

fun readVarUint_loop :: "nat \<Rightarrow> nat \<Rightarrow> bytes \<Rightarrow> error + (nat \<times> bytes)" where
  "readVarUint_loop num mult [] = Inl UnexpectedEndOfArray"
| "readVarUint_loop num mult (r # rest) =
     (let num' = num + unat (r AND 127) * mult in
      if r < 128 then Inr (num', rest)
      else if num' > MAX_SAFE_INTEGER then Inl IntegerOutOfRange
      else readVarUint_loop num' (mult * 128) rest)"

definition readVarUint :: "bytes \<Rightarrow> error + (nat \<times> bytes)" where
  "readVarUint decoder = readVarUint_loop 0 1 decoder"

definition readVarUint8Array :: "bytes \<Rightarrow> error + (bytes \<times> bytes)" where
  "readVarUint8Array decoder =
     (case readVarUint decoder of
        Inl e \<Rightarrow> Inl e
      | Inr (len, rest) \<Rightarrow>
          if len \<le> length rest then Inr (take len rest, drop len rest) else Inl RangeError)"

text \<open>
  \<^verbatim>\<open>decoding.readVarString\<close> decodes the bytes with
  \<^verbatim>\<open>new TextDecoder('utf-8', {fatal: true, ignoreBOM: true})\<close>, which throws a TypeError on
  bytes that are not well-formed UTF-8: a lead byte must be followed by as many
  continuation bytes as it announces, and overlong forms, surrogates and code points
  beyond U+10FFFF are refused.
\<close>

definition continuation :: "byte \<Rightarrow> bool" where
  "continuation b = (0x80 \<le> b \<and> b \<le> 0xBF)"

fun utf8_valid :: "bytes \<Rightarrow> bool" where
  "utf8_valid [] = True"
| "utf8_valid (b # bs) =
     (if b < 0x80 then utf8_valid bs
      else if 0xC2 \<le> b \<and> b \<le> 0xDF then
        (case bs of
           c1 # r \<Rightarrow> continuation c1 \<and> utf8_valid r
         | _ \<Rightarrow> False)
      else if 0xE0 \<le> b \<and> b \<le> 0xEF then
        (case bs of
           c1 # c2 # r \<Rightarrow>
             (if b = 0xE0 then 0xA0 \<le> c1 \<and> c1 \<le> 0xBF
              else if b = 0xED then 0x80 \<le> c1 \<and> c1 \<le> 0x9F
              else continuation c1)
             \<and> continuation c2 \<and> utf8_valid r
         | _ \<Rightarrow> False)
      else if 0xF0 \<le> b \<and> b \<le> 0xF4 then
        (case bs of
           c1 # c2 # c3 # r \<Rightarrow>
             (if b = 0xF0 then 0x90 \<le> c1 \<and> c1 \<le> 0xBF
              else if b = 0xF4 then 0x80 \<le> c1 \<and> c1 \<le> 0x8F
              else continuation c1)
             \<and> continuation c2 \<and> continuation c3 \<and> utf8_valid r
         | _ \<Rightarrow> False)
      else False)"

definition readVarString :: "bytes \<Rightarrow> error + (string \<times> bytes)" where
  "readVarString decoder =
     (case readVarUint8Array decoder of
        Inl e \<Rightarrow> Inl e
      | Inr (arr, rest) \<Rightarrow>
          if utf8_valid arr then Inr (map (\<lambda>b. char_of (unat b)) arr, rest) else Inl TypeError)"

function writeVarUint :: "nat \<Rightarrow> bytes" where
  "writeVarUint num =
     (if num > 127 then (128 OR (127 AND of_nat num)) # writeVarUint (num div 128)
      else [127 AND of_nat num])"
  by pat_completeness auto
termination
  by (relation "measure id") auto

declare writeVarUint.simps [simp del]

definition writeVarUint8Array :: "bytes \<Rightarrow> bytes" where
  "writeVarUint8Array arr = writeVarUint (length arr) @ arr"

definition writeVarString :: "string \<Rightarrow> bytes" where
  "writeVarString str = writeVarUint (length str) @ map of_char str"

subsection \<open>y-protocols/sync\<close>

definition messageYjsSyncStep1 :: nat where "messageYjsSyncStep1 = 0"
definition messageYjsSyncStep2 :: nat where "messageYjsSyncStep2 = 1"
definition messageYjsUpdate :: nat where "messageYjsUpdate = 2"

definition writeSyncStep1 :: "'doc libs \<Rightarrow> 'doc \<Rightarrow> bytes" where
  "writeSyncStep1 L d =
     writeVarUint messageYjsSyncStep1 @ writeVarUint8Array (encodeStateVector L d)"

definition writeSyncStep2 :: "'doc libs \<Rightarrow> 'doc \<Rightarrow> bytes \<Rightarrow> bytes" where
  "writeSyncStep2 L d encodedStateVector =
     writeVarUint messageYjsSyncStep2 @ writeVarUint8Array (encodeStateAsUpdate L d encodedStateVector)"

text \<open>
  \<^verbatim>\<open>readSyncStep2(decoder, doc, origin)\<close>, which is \<^verbatim>\<open>readUpdate\<close> as well: the payload
  is read and applied inside a \<^verbatim>\<open>try\<close> block whose \<^verbatim>\<open>catch\<close> writes one
  \<^verbatim>\<open>console.error\<close> line. The result is the document afterwards and the lines written.
\<close>

definition caughtLine :: string where
  "caughtLine = ''Caught error while handling a Yjs update''"

definition readSyncStep2 :: "'doc libs \<Rightarrow> bytes \<Rightarrow> 'doc \<Rightarrow> 'doc \<times> string list" where
  "readSyncStep2 L decoder d =
     (case readVarUint8Array decoder of
        Inl e \<Rightarrow> (d, [caughtLine])
      | Inr (update, _) \<Rightarrow>
          (case applyUpdate L d update of
             None \<Rightarrow> (d, [caughtLine])
           | Some d' \<Rightarrow> (d', [])))"

text \<open>
  \<^verbatim>\<open>readSyncMessage(decoder, encoder, doc, origin)\<close> returns the sync message type, what
  it wrote to the encoder, the document after it, and the \<^verbatim>\<open>console.error\<close> lines it
  wrote. Step 1 answers with step 2; step 2 and update apply their payload; any other
  type throws.
\<close>

definition readSyncMessage ::
  "'doc libs \<Rightarrow> bytes \<Rightarrow> 'doc \<Rightarrow> error + (nat \<times> bytes \<times> 'doc \<times> string list)" where
  "readSyncMessage L decoder d =
     (case readVarUint decoder of
        Inl e \<Rightarrow> Inl e
      | Inr (messageType, rest) \<Rightarrow>
          if messageType = messageYjsSyncStep1 then
            (case readVarUint8Array rest of
               Inl e \<Rightarrow> Inl e
             | Inr (sv, _) \<Rightarrow> Inr (messageType, writeSyncStep2 L d sv, d, []))
          else if messageType = messageYjsSyncStep2 \<or> messageType = messageYjsUpdate then
            Inr (messageType, [], readSyncStep2 L rest d)
          else Inl UnknownSyncMessageType)"

section \<open>The room actor: YjsPartyServer\<close>

definition MESSAGE_SYNC :: nat where "MESSAGE_SYNC = 0"
definition MESSAGE_AWARENESS :: nat where "MESSAGE_AWARENESS = 1"
definition MESSAGE_CUSTOM :: nat where "MESSAGE_CUSTOM = 2"

definition persistenceKey :: string where
  "persistenceKey = ''yjs-document-state''"

text \<open>
  \<open>name\<close> and \<open>color\<close> are optional because the palettes are read by index:
  a read outside the array gives \<^verbatim>\<open>undefined\<close>, and \<^verbatim>\<open>JSON.stringify\<close> leaves such a
  property out.
\<close>

record user_data =
  name :: "string option"
  color :: "string option"
  profile_picture_url :: string

text \<open>
  The instance fields. The two \<^verbatim>\<open>Map\<close>s keep insertion order, so they are association
  lists: \<^verbatim>\<open>set\<close> is \<open>AList.update\<close> (in place for a known key, at the end for a new
  one), \<^verbatim>\<open>delete\<close> is \<open>AList.delete\<close>, \<^verbatim>\<open>size\<close> is \<open>length\<close>.
\<close>

record 'doc server =
  doc :: "'doc option"
  instanceCreatedAt :: int
  lastMessageAt :: int
  lastActivityAt :: int
  customAwareness :: "(conn_id \<times> json) list"
  connectedUsers :: "(conn_id \<times> user_data) list"

text \<open>
  What the host answers during one event: \<^verbatim>\<open>Date.now()\<close>,
  \<^verbatim>\<open>new Date().toISOString()\<close>, the ids of \<^verbatim>\<open>this.getConnections()\<close> in the host's
  order, and whether \<^verbatim>\<open>this.ctx.storage.put\<close> resolves (\<open>True\<close>) or rejects.
\<close>

record env =
  now :: int
  isoNow :: string
  getConnections :: "conn_id list"
  storagePutResolves :: bool

datatype callback = DisconnectCount

text \<open>
  The calls a handler makes on the host, in order. \<open>Broadcast m without\<close> is
  \<^verbatim>\<open>this.broadcast(m, without)\<close>; \<open>StoragePut\<close> is the call of
  \<^verbatim>\<open>storage.put\<close>, whether or not it then resolves. Of the log lines only
  \<^verbatim>\<open>console.error\<close> and the two \<^verbatim>\<open>console.log\<close> lines that are all a branch
  does are kept.
\<close>

datatype effect =
    Send conn_id bytes
  | Broadcast bytes "conn_id list"
  | StoragePut string bytes
  | SetTimeout callback nat
  | ConsoleError string
  | ConsoleLog string

text \<open>
  The result of a handler: the instance after it, the calls it made, and the exception
  that left it (a rejected promise for the \<^verbatim>\<open>async\<close> handlers), if any.
\<close>

record 'doc outcome =
  after :: "'doc server"
  effects :: "effect list"
  thrown :: "error option"

definition has :: "('k \<times> 'v) list \<Rightarrow> 'k \<Rightarrow> bool" where
  "has m k = (map_of m k \<noteq> None)"

text \<open>The field initialisers of the class, run when the host creates the object.\<close>

definition newInstance :: "int \<Rightarrow> 'doc server" where
  "newInstance createdAt =
     \<lparr>doc = None, instanceCreatedAt = createdAt, lastMessageAt = 0, lastActivityAt = 0,
      customAwareness = [], connectedUsers = []\<rparr>"

text \<open>
  \<open>onStart\<close> creates the document and loads what \<^verbatim>\<open>storage.get\<close> returned
  (\<open>None\<close> for nothing stored). \<^verbatim>\<open>Y.applyUpdate\<close> is called here without a
  \<^verbatim>\<open>try\<close>: if it throws, \<open>onStart\<close> ends with that exception and the fresh document
  stays assigned.
\<close>

definition onStart :: "'doc libs \<Rightarrow> bytes option \<Rightarrow> 'doc server \<Rightarrow> 'doc outcome" where
  "onStart L persistedState s =
     (case persistedState of
        None \<Rightarrow> \<lparr>after = s\<lparr>doc := Some (newDoc L)\<rparr>, effects = [], thrown = None\<rparr>
      | Some p \<Rightarrow>
          (case applyUpdate L (newDoc L) p of
             Some d \<Rightarrow> \<lparr>after = s\<lparr>doc := Some d\<rparr>, effects = [], thrown = None\<rparr>
           | None \<Rightarrow>
               \<lparr>after = s\<lparr>doc := Some (newDoc L)\<rparr>, effects = [], thrown = Some UpdateError\<rparr>))"

definition persistDocument :: "'doc libs \<Rightarrow> env \<Rightarrow> 'doc server \<Rightarrow> effect list \<times> error option" where
  "persistDocument L e s =
     (case doc s of
        None \<Rightarrow> ([], None)
      | Some d \<Rightarrow>
          ([StoragePut persistenceKey (encodeStateAsUpdate L d emptyStateVector)],
           if storagePutResolves e then None else Some StorageError))"

subsection \<open>Identities\<close>

definition colors :: "string list" where
  "colors = [''#FF6B6B'', ''#4ECDC4'', ''#45B7D1'', ''#FFA07A'', ''#98D8C8'', ''#F7DC6F'',
             ''#BB8FCE'', ''#85C1E2'']"

definition names :: "string list" where
  "names = [''Alice'', ''Bob'', ''Charlie'', ''Diana'', ''Eve'', ''Frank'', ''Grace'', ''Henry'']"

text \<open>The remainder of JavaScript has the sign of the dividend.\<close>

definition js_rem :: "int \<Rightarrow> int \<Rightarrow> int" where
  "js_rem a b = (if a < 0 then - ((- a) mod \<bar>b\<bar>) else a mod \<bar>b\<bar>)"

definition js_index :: "'a list \<Rightarrow> int \<Rightarrow> 'a option" where
  "js_index xs i = (if 0 \<le> i \<and> i < int (length xs) then Some (xs ! nat i) else None)"

definition userDataAt :: "int \<Rightarrow> conn_id \<Rightarrow> user_data" where
  "userDataAt index cid =
     \<lparr>name = js_index names (js_rem index (int (length names))),
      color = js_index colors (js_rem index (int (length colors))),
      profile_picture_url = ''https://i.pravatar.cc/150?u='' @ cid\<rparr>"

text \<open>The \<^verbatim>\<open>forEach\<close> over the live connections that fills in the missing entries.\<close>

definition restoreUser ::
  "nat \<times> conn_id \<Rightarrow> (conn_id \<times> user_data) list \<Rightarrow> (conn_id \<times> user_data) list" where
  "restoreUser p users =
     (if \<not> has users (snd p) then AList.update (snd p) (userDataAt (int (fst p)) (snd p)) users
      else users)"

definition rebuildUsers ::
  "conn_id list \<Rightarrow> (conn_id \<times> user_data) list \<Rightarrow> (conn_id \<times> user_data) list" where
  "rebuildUsers existingConnections users =
     fold restoreUser (enumerate 0 existingConnections) users"

subsection \<open>The roster broadcast\<close>

definition opt_field :: "string \<Rightarrow> string option \<Rightarrow> (string \<times> json) list" where
  "opt_field k v = (case v of None \<Rightarrow> [] | Some s \<Rightarrow> [(k, JStr s)])"

definition userEntry :: "conn_id \<times> user_data \<Rightarrow> json" where
  "userEntry p =
     JObj ([(''id'', JStr (fst p))] @ opt_field ''name'' (name (snd p))
           @ opt_field ''color'' (color (snd p))
           @ [(''profile_picture_url'', JStr (profile_picture_url (snd p)))])"

definition connectionCountData :: "'doc libs \<Rightarrow> env \<Rightarrow> string \<Rightarrow> 'doc server \<Rightarrow> json" where
  "connectionCountData L e event s =
     (let connections = getConnections e;
          connectionCount = length connections;
          mode = (if connectionCount \<le> 1 then ''solo'' else ''multi'');
          users = map userEntry (connectedUsers s)
      in JObj [(''connectionCount'', JNum (int connectionCount)),
               (''mode'', JStr mode),
               (''event'', JStr event),
               (''connections'', JNum (int connectionCount)),
               (''users'', JArr users),
               (''docSize'', JNum (case doc s of
                                     Some d \<Rightarrow> int (length (encodeStateAsUpdate L d emptyStateVector))
                                   | None \<Rightarrow> 0)),
               (''awarenessStates'', JNum (int (length (customAwareness s)))),
               (''timestamp'', JStr (isoNow e))])"

definition customFrame :: "'doc libs \<Rightarrow> json \<Rightarrow> bytes" where
  "customFrame L msg = writeVarUint MESSAGE_CUSTOM @ writeVarString (JSON_stringify L msg)"

definition awarenessFrame :: "'doc libs \<Rightarrow> conn_id \<Rightarrow> json \<Rightarrow> bytes" where
  "awarenessFrame L clientId state =
     writeVarUint MESSAGE_AWARENESS
     @ writeVarString (JSON_stringify L (JObj [(''clientId'', JStr clientId), (''state'', state)]))"

definition broadcastConnectionCount :: "'doc libs \<Rightarrow> env \<Rightarrow> string \<Rightarrow> 'doc server \<Rightarrow> effect list" where
  "broadcastConnectionCount L e event s =
     [Broadcast (customFrame L (JObj [(''type'', JStr ''connection-count''),
                                      (''data'', connectionCountData L e event s)])) []]"

subsection \<open>onConnect\<close>

definition onConnect :: "'doc libs \<Rightarrow> env \<Rightarrow> conn_id \<Rightarrow> 'doc server \<Rightarrow> 'doc outcome" where
  "onConnect L e connection s =
     (let s1 = s\<lparr>lastActivityAt := now e\<rparr> in
      case doc s1 of
        None \<Rightarrow>
          \<lparr>after = s1, effects = [ConsoleError ''[YJS-PARTY] ERROR: Doc not initialized!''],
           thrown = None\<rparr>
      | Some d \<Rightarrow>
          (let existingConnections = getConnections e;
               users1 = (if length existingConnections > length (connectedUsers s1)
                         then rebuildUsers existingConnections (connectedUsers s1)
                         else connectedUsers s1);
               connectionIndex = int (length existingConnections) - 1;
               userData = userDataAt connectionIndex connection;
               s2 = s1\<lparr>connectedUsers := AList.update connection userData users1\<rparr>
           in \<lparr>after = s2,
               effects =
                 Send connection (writeVarUint MESSAGE_SYNC @ writeSyncStep1 L d)
                 # map (\<lambda>p. Send connection (awarenessFrame L (fst p) (snd p))) (customAwareness s2)
                 @ broadcastConnectionCount L e ''connect'' s2,
               thrown = None\<rparr>))"

subsection \<open>onMessage\<close>

datatype ws_message = Text string | Binary bytes

text \<open>
  \<^verbatim>\<open>msg.type\<close> as \<^verbatim>\<open>handleCustomMessage\<close> reads it: a property read on
  \<^verbatim>\<open>null\<close> throws, on any other value that has no such property it is
  \<^verbatim>\<open>undefined\<close>.
\<close>

fun msg_type :: "json \<Rightarrow> error + json option" where
  "msg_type JNull = Inl TypeError"
| "msg_type j = Inr (json_get ''type'' j)"

definition handleCustomMessage :: "'doc libs \<Rightarrow> env \<Rightarrow> conn_id \<Rightarrow> json \<Rightarrow> error + effect list" where
  "handleCustomMessage L e connection msg =
     (case msg_type msg of
        Inl err \<Rightarrow> Inl err
      | Inr t \<Rightarrow>
          Inr (if t = Some (JStr ''ping'') then
                 [Send connection
                    (customFrame L (JObj [(''type'', JStr ''pong''), (''timestamp'', JStr (isoNow e))]))]
               else if t = Some (JStr ''config'') then
                 [Broadcast (customFrame L msg) [connection]]
               else if t = Some (JStr ''mode'') then
                 [Broadcast (customFrame L msg) [connection]]
               else [ConsoleLog ''[YJS-PARTY] Unknown custom message type:'']))"

definition onSyncMessage ::
  "'doc libs \<Rightarrow> env \<Rightarrow> conn_id \<Rightarrow> bytes \<Rightarrow> bytes \<Rightarrow> 'doc \<Rightarrow> 'doc server \<Rightarrow> 'doc outcome" where
  "onSyncMessage L e connection message decoder d s1 =
     (case readSyncMessage L decoder d of
        Inl err \<Rightarrow> \<lparr>after = s1, effects = [], thrown = Some err\<rparr>
      | Inr (syncMessageType, written, d', errorLines) \<Rightarrow>
          (let s2 = s1\<lparr>doc := Some d'\<rparr>;
               caught = map ConsoleError errorLines;
               response = (if written \<noteq> []
                           then [Send connection (writeVarUint MESSAGE_SYNC @ written)] else [])
           in if syncMessageType = messageYjsUpdate then
                \<lparr>after = s2,
                 effects = caught @ response @ [Broadcast message [connection]]
                           @ fst (persistDocument L e s2),
                 thrown = snd (persistDocument L e s2)\<rparr>
              else \<lparr>after = s2, effects = caught @ response, thrown = None\<rparr>))"

definition onAwarenessMessage ::
  "'doc libs \<Rightarrow> conn_id \<Rightarrow> bytes \<Rightarrow> 'doc server \<Rightarrow> 'doc outcome" where
  "onAwarenessMessage L connection decoder s1 =
     (case readVarString decoder of
        Inl err \<Rightarrow> \<lparr>after = s1, effects = [], thrown = Some err\<rparr>
      | Inr (awarenessData, _) \<Rightarrow>
          (case JSON_parse L awarenessData of
             None \<Rightarrow>
               \<lparr>after = s1,
                effects = [ConsoleError ''[YJS-PARTY] Failed to parse custom awareness:''],
                thrown = None\<rparr>
           | Some awarenessState \<Rightarrow>
               \<lparr>after = s1\<lparr>customAwareness :=
                              AList.update connection awarenessState (customAwareness s1)\<rparr>,
                effects = [Broadcast (awarenessFrame L connection awarenessState) [connection]],
                thrown = None\<rparr>))"

definition onCustomMessage ::
  "'doc libs \<Rightarrow> env \<Rightarrow> conn_id \<Rightarrow> bytes \<Rightarrow> 'doc server \<Rightarrow> 'doc outcome" where
  "onCustomMessage L e connection decoder s1 =
     (case readVarString decoder of
        Inl err \<Rightarrow> \<lparr>after = s1, effects = [], thrown = Some err\<rparr>
      | Inr (customData, _) \<Rightarrow>
          (case JSON_parse L customData of
             None \<Rightarrow>
               \<lparr>after = s1,
                effects = [ConsoleError ''[YJS-PARTY] Failed to parse custom message:''],
                thrown = None\<rparr>
           | Some customMsg \<Rightarrow>
               (case handleCustomMessage L e connection customMsg of
                  Inl err \<Rightarrow>
                    \<lparr>after = s1,
                     effects = [ConsoleError ''[YJS-PARTY] Failed to parse custom message:''],
                     thrown = None\<rparr>
                | Inr fx \<Rightarrow> \<lparr>after = s1, effects = fx, thrown = None\<rparr>)))"

definition onMessage :: "'doc libs \<Rightarrow> env \<Rightarrow> conn_id \<Rightarrow> ws_message \<Rightarrow> 'doc server \<Rightarrow> 'doc outcome" where
  "onMessage L e connection rawMessage s =
     (let s1 = s\<lparr>lastMessageAt := now e, lastActivityAt := now e\<rparr> in
      case doc s1 of
        None \<Rightarrow>
          \<lparr>after = s1, effects = [ConsoleError ''[YJS-PARTY] ERROR: Doc not initialized!''],
           thrown = None\<rparr>
      | Some d \<Rightarrow>
          (case rawMessage of
             Text str \<Rightarrow>
               \<lparr>after = s1, effects = [ConsoleLog ''[YJS-PARTY] Received string message:''],
                thrown = None\<rparr>
           | Binary message \<Rightarrow>
               (case readVarUint message of
                  Inl err \<Rightarrow> \<lparr>after = s1, effects = [], thrown = Some err\<rparr>
                | Inr (messageType, decoder) \<Rightarrow>
                    if messageType = MESSAGE_SYNC then
                      onSyncMessage L e connection message decoder d s1
                    else if messageType = MESSAGE_AWARENESS then
                      onAwarenessMessage L connection decoder s1
                    else if messageType = MESSAGE_CUSTOM then
                      onCustomMessage L e connection decoder s1
                    else
                      \<lparr>after = s1,
                       effects = [ConsoleError ''[YJS-PARTY] Unknown message type:''],
                       thrown = None\<rparr>)))"

subsection \<open>onClose\<close>

definition onClose :: "'doc libs \<Rightarrow> conn_id \<Rightarrow> 'doc server \<Rightarrow> 'doc outcome" where
  "onClose L connection s =
     (let s1 = (if has (connectedUsers s) connection
                then s\<lparr>connectedUsers := AList.delete connection (connectedUsers s)\<rparr> else s)
      in if has (customAwareness s1) connection then
           \<lparr>after = s1\<lparr>customAwareness := AList.delete connection (customAwareness s1)\<rparr>,
            effects = [Broadcast (awarenessFrame L connection JNull) [], SetTimeout DisconnectCount 0],
            thrown = None\<rparr>
         else \<lparr>after = s1, effects = [SetTimeout DisconnectCount 0], thrown = None\<rparr>)"

text \<open>
  The timer callback registered by \<open>onClose\<close>. It runs as a task of its own, so the
  host is asked again: \<open>e\<close> is the host's answer at that later moment.
\<close>

fun runCallback :: "'doc libs \<Rightarrow> env \<Rightarrow> callback \<Rightarrow> 'doc server \<Rightarrow> 'doc outcome" where
  "runCallback L e DisconnectCount s =
     \<lparr>after = s, effects = broadcastConnectionCount L e ''disconnect'' s, thrown = None\<rparr>"

section \<open>The client provider: YjsPartyProvider\<close>

text \<open>
  Of the provider, the connection life cycle: \<^verbatim>\<open>connect\<close>, the \<^verbatim>\<open>onclose\<close> handler it
  installs on the socket, \<^verbatim>\<open>destroy\<close>, and the timer callback. \<open>ws\<close> says whether
  \<^verbatim>\<open>this.ws\<close> holds a socket (it is \<^verbatim>\<open>null\<close> before the first \<^verbatim>\<open>connect\<close>).
\<close>

record provider =
  url :: string
  ws :: bool
  synced :: bool

datatype pcallback = Connect

datatype peffect =
    NewWebSocket string
  | WsClose
  | AwarenessDestroy
  | Emit string json
  | PSetTimeout pcallback nat

definition connect :: "provider \<Rightarrow> provider \<times> peffect list" where
  "connect p = (p\<lparr>ws := True\<rparr>, [NewWebSocket (url p)])"

definition ws_onclose :: "provider \<Rightarrow> provider \<times> peffect list" where
  "ws_onclose p =
     (p\<lparr>synced := False\<rparr>,
      [Emit ''status'' (JObj [(''status'', JStr ''disconnected'')]), PSetTimeout Connect 1000])"

definition destroy :: "provider \<Rightarrow> provider \<times> peffect list" where
  "destroy p = (p, (if ws p then [WsClose] else []) @ [AwarenessDestroy])"

text \<open>
  What can happen to a provider: the caller destroys it, the transport reports that the
  socket closed, a registered timer fires.
\<close>

datatype pevent = Destroy | Closed | Timer pcallback

fun provider_step :: "pevent \<Rightarrow> provider \<Rightarrow> provider \<times> peffect list" where
  "provider_step Destroy p = destroy p"
| "provider_step Closed p = ws_onclose p"
| "provider_step (Timer Connect) p = connect p"

fun provider_run :: "pevent list \<Rightarrow> provider \<Rightarrow> provider \<times> peffect list" where
  "provider_run [] p = (p, [])"
| "provider_run (ev # evs) p =
     (let (p1, fx1) = provider_step ev p; (p2, fx2) = provider_run evs p1 in (p2, fx1 @ fx2))"

section \<open>A small instance of the imported functions\<close>

text \<open>
  For evaluating the handlers on concrete events: a grow-only set of bytes as the
  document (an update is the bytes to add, and one that holds the byte 255 is refused as
  corrupt; a state vector is the count and the bytes already known), a JSON printer, and a parser that accepts exactly the printed form of
  the sample values below and rejects every other text.
\<close>

definition sample_applyUpdate :: "bytes \<Rightarrow> bytes \<Rightarrow> bytes option" where
  "sample_applyUpdate d update =
     (if 255 \<in> set update then None
      else Some (d @ filter (\<lambda>x. x \<notin> set d) (remdups update)))"

definition sample_encodeStateVector :: "bytes \<Rightarrow> bytes" where
  "sample_encodeStateVector d = of_nat (length d) # d"

definition sample_encodeStateAsUpdate :: "bytes \<Rightarrow> bytes \<Rightarrow> bytes" where
  "sample_encodeStateAsUpdate d sv = filter (\<lambda>x. x \<notin> set (tl sv)) d"

function showNat :: "nat \<Rightarrow> string" where
  "showNat n =
     (if n < 10 then [''0123456789'' ! n]
      else showNat (n div 10) @ [''0123456789'' ! (n mod 10)])"
  by pat_completeness auto
termination
  by (relation "measure id") auto

declare showNat.simps [simp del]

definition quoted :: "string \<Rightarrow> string" where
  "quoted s = CHR 0x22 # s @ [CHR 0x22]"

fun commas :: "string list \<Rightarrow> string" where
  "commas [] = []"
| "commas [x] = x"
| "commas (x # y # zs) = x @ '','' @ commas (y # zs)"

fun sample_stringify :: "json \<Rightarrow> string" where
  "sample_stringify JNull = ''null''"
| "sample_stringify (JBool b) = (if b then ''true'' else ''false'')"
| "sample_stringify (JNum n) = (if n < 0 then ''-'' @ showNat (nat (- n)) else showNat (nat n))"
| "sample_stringify (JStr s) = quoted s"
| "sample_stringify (JArr js) = ''['' @ commas (map sample_stringify js) @ '']''"
| "sample_stringify (JObj kvs) =
     ''{'' @ commas (map (\<lambda>p. quoted (fst p) @ '':'' @ sample_stringify (snd p)) kvs) @ ''}''"

definition pingMsg :: json where
  "pingMsg = JObj [(''type'', JStr ''ping'')]"

definition pongMsg :: json where
  "pongMsg = JObj [(''type'', JStr ''pong'')]"

definition configMsg :: json where
  "configMsg = JObj [(''type'', JStr ''config''), (''data'', JStr ''dark'')]"

definition cursorState :: json where
  "cursorState = JObj [(''cursor'', JObj [(''line'', JNum 1), (''col'', JNum 2)])]"

definition sample_values :: "json list" where
  "sample_values = [pingMsg, pongMsg, configMsg, cursorState, JNull]"

definition sample_parse :: "string \<Rightarrow> json option" where
  "sample_parse text = find (\<lambda>j. sample_stringify j = text) sample_values"

definition sampleLibs :: "bytes libs" where
  "sampleLibs =
     \<lparr>newDoc = [], applyUpdate = sample_applyUpdate,
      encodeStateVector = sample_encodeStateVector,
      encodeStateAsUpdate = sample_encodeStateAsUpdate,
      JSON_parse = sample_parse, JSON_stringify = sample_stringify\<rparr>"

definition at :: "conn_id list \<Rightarrow> env" where
  "at live = \<lparr>now = 5000, isoNow = ''2025-01-01T00:00:00.000Z'', getConnections = live,
              storagePutResolves = True\<rparr>"

definition started :: "bytes server" where
  "started = after (onStart sampleLibs None (newInstance 0))"

text \<open>
  The identities the \<^verbatim>\<open>forEach\<close> of \<open>onConnect\<close> hands out by position, for an
  enumeration whose first element has index \<open>n\<close>.
\<close>

definition assigned :: "nat \<Rightarrow> conn_id list \<Rightarrow> (conn_id \<times> user_data) list" where
  "assigned n xs = map (\<lambda>p. (snd p, userDataAt (int (fst p)) (snd p))) (enumerate n xs)"

definition sampleProvider :: provider where
  "sampleProvider = \<lparr>url = ''ws://localhost:1999/parties/yjs-party/r1'', ws = True, synced = True\<rparr>"


section \<open>Properties\<close>

subsection \<open>Shared facts\<close>

lemmas tags = MESSAGE_SYNC_def MESSAGE_AWARENESS_def MESSAGE_CUSTOM_def
  messageYjsSyncStep1_def messageYjsSyncStep2_def messageYjsUpdate_def

lemmas sample_defs = started_def onStart_def newInstance_def sampleLibs_def at_def



lemma started_doc: "doc started = Some []"
  by (simp add: sample_defs)

text \<open>What \<open>writeVarUint\<close> writes, \<open>readVarUint\<close> reads back.\<close>

lemma low7_eq_mask: "(127::byte) = mask 7"
  by (simp add: mask_eq_exp_minus_1)

lemma unat_low7: "unat ((127::byte) AND of_nat n) = n mod 128"
proof -
  have "(127::byte) AND of_nat n = take_bit 7 (of_nat n)"
    by (simp only: low7_eq_mask take_bit_eq_mask and.commute)
  then have "unat ((127::byte) AND of_nat n) = take_bit 7 (unat (of_nat n :: byte))"
    by (simp only: unsigned_take_bit_eq)
  also have "\<dots> = take_bit 7 (take_bit 8 n)"
    by (simp add: unat_of_nat take_bit_eq_mod)
  also have "\<dots> = n mod 128"
    by (simp add: take_bit_eq_mod mod_mod_cancel)
  finally show ?thesis .
qed

lemma low7_less: "(127::byte) AND of_nat n < 128"
  using unat_low7 [of n] by (simp add: word_less_nat_alt)

lemma more_not_less: "\<not> (128 OR (127 AND of_nat n)) < (128::byte)"
  by (simp add: not_less le_word_or2)

lemma more_low7: "(128 OR (127 AND of_nat n)) AND (127::byte) = 127 AND of_nat n"
proof -
  have "(128 OR (127 AND of_nat n)) AND (127::byte)
          = ((128::byte) AND 127) OR ((127 AND of_nat n) AND 127)"
    by (rule bit.conj_disj_distrib2)
  also have "(128::byte) AND 127 = 0"
    by simp
  also have "(127 AND of_nat n) AND (127::byte) = 127 AND of_nat n"
    by (simp add: and.assoc and.left_commute and.commute)
  finally show ?thesis
    by simp
qed

lemma last_low7: "(127 AND of_nat n) AND (127::byte) = 127 AND of_nat n"
  by (simp add: and.assoc and.left_commute and.commute)

lemma readVarUint_loop_writeVarUint:
  "num + n * mult \<le> MAX_SAFE_INTEGER \<Longrightarrow>
   readVarUint_loop num mult (writeVarUint n @ rest) = Inr (num + n * mult, rest)"
proof (induction n arbitrary: num mult rule: writeVarUint.induct)
  case (1 n)
  show ?case
  proof (cases "n > 127")
    case True
    have "(n mod 128 + 128 * (n div 128)) * mult = n mod 128 * mult + 128 * (n div 128) * mult"
      by (rule add_mult_distrib)
    then have "n mod 128 * mult + n div 128 * (mult * 128)
                 = (n mod 128 + 128 * (n div 128)) * mult"
      by (simp only: mult_ac)
    also have "\<dots> = n * mult"
      by simp
    finally have sum: "num + n mod 128 * mult + n div 128 * (mult * 128) = num + n * mult"
      by simp
    then have bound: "num + n mod 128 * mult \<le> MAX_SAFE_INTEGER"
      using "1.prems" by linarith
    have "readVarUint_loop (num + n mod 128 * mult) (mult * 128) (writeVarUint (n div 128) @ rest)
            = Inr (num + n mod 128 * mult + n div 128 * (mult * 128), rest)"
      using "1.IH" [OF True, of "num + n mod 128 * mult" "mult * 128"] "1.prems" sum by simp
    with True bound sum show ?thesis
      by (subst writeVarUint.simps) (simp add: more_not_less more_low7 unat_low7 Let_def)
  next
    case False
    then have "n mod 128 = n" by simp
    with False show ?thesis
      by (subst writeVarUint.simps) (simp add: low7_less last_low7 unat_low7 Let_def)
  qed
qed

lemma readVarUint_writeVarUint:
  "n \<le> MAX_SAFE_INTEGER \<Longrightarrow> readVarUint (writeVarUint n @ rest) = Inr (n, rest)"
  using readVarUint_loop_writeVarUint [of 0 n 1 rest] by (simp add: readVarUint_def)

lemma readVarUint8Array_writeVarUint8Array:
  "length arr \<le> MAX_SAFE_INTEGER \<Longrightarrow>
   readVarUint8Array (writeVarUint8Array arr @ rest) = Inr (arr, rest)"
  by (simp add: readVarUint8Array_def writeVarUint8Array_def readVarUint_writeVarUint)


lemma json_get_userEntry:
  "json_get ''id'' (userEntry (x, u)) = Some (JStr x)"
  "json_get ''name'' (userEntry (x, u)) = map_option JStr (name u)"
  "json_get ''color'' (userEntry (x, u)) = map_option JStr (color u)"
  "json_get ''profile_picture_url'' (userEntry (x, u)) = Some (JStr (profile_picture_url u))"
  by (simp_all add: userEntry_def opt_field_def split: option.split)


lemma onConnect_thrown: "thrown (onConnect L e c s) = None"
  by (simp add: onConnect_def Let_def split: option.split)


lemma onMessage_sync_update_refused:
  assumes "doc s = Some d"
    and "readVarUint message = Inr (MESSAGE_SYNC, rest)"
    and "readVarUint rest = Inr (messageYjsUpdate, rest')"
    and "readVarUint8Array rest' = Inr (update, rest'')"
    and "applyUpdate L d update = None"
  shows "effects (onMessage L e c (Binary message) s) =
           [ConsoleError caughtLine, Broadcast message [c],
            StoragePut persistenceKey (encodeStateAsUpdate L d emptyStateVector)]"
    and "doc (after (onMessage L e c (Binary message) s)) = Some d"
    and "thrown (onMessage L e c (Binary message) s) =
           (if storagePutResolves e then None else Some StorageError)"
  using assms
  by (simp_all add: onMessage_def Let_def onSyncMessage_def readSyncMessage_def readSyncStep2_def
      tags persistDocument_def)

lemma onMessage_sync_step2:
  assumes "doc s = Some d"
    and "readVarUint message = Inr (MESSAGE_SYNC, rest)"
    and "readVarUint rest = Inr (messageYjsSyncStep2, rest')"
    and "readVarUint8Array rest' = Inr (update, rest'')"
    and "applyUpdate L d update = Some d'"
  shows "effects (onMessage L e c (Binary message) s) = []"
    and "doc (after (onMessage L e c (Binary message) s)) = Some d'"
    and "thrown (onMessage L e c (Binary message) s) = None"
  using assms
  by (simp_all add: onMessage_def Let_def onSyncMessage_def readSyncMessage_def readSyncStep2_def
      tags)


text \<open>
  The reply to a sync step 1 frame is read back by a receiver as a sync frame of step 2
  whose payload is the diff.
\<close>

lemma step2_reply_decodes:
  assumes "length (encodeStateAsUpdate L d sv) \<le> MAX_SAFE_INTEGER"
  shows "readVarUint (writeVarUint MESSAGE_SYNC @ writeSyncStep2 L d sv)
           = Inr (MESSAGE_SYNC, writeSyncStep2 L d sv)"
    and "readVarUint (writeSyncStep2 L d sv)
           = Inr (messageYjsSyncStep2, writeVarUint8Array (encodeStateAsUpdate L d sv))"
    and "readVarUint8Array (writeVarUint8Array (encodeStateAsUpdate L d sv))
           = Inr (encodeStateAsUpdate L d sv, [])"
  using assms readVarUint_writeVarUint [of MESSAGE_SYNC "writeSyncStep2 L d sv"]
    readVarUint_writeVarUint [of messageYjsSyncStep2
      "writeVarUint8Array (encodeStateAsUpdate L d sv)"]
    readVarUint8Array_writeVarUint8Array [of "encodeStateAsUpdate L d sv" "[]"]
  by (simp_all add: writeSyncStep2_def tags MAX_SAFE_INTEGER_def)

subsection \<open>Roster snapshot\<close>

text \<open>
  C1. The roster message is built when it is broadcast: \<open>connectionCount\<close> is the
  length of the host's enumeration of that moment and \<open>mode\<close> follows from it. The
  \<open>users\<close> array, however, is the instance's own user map, and only a connect event
  fills that map from the enumeration. With \<open>a\<close> and \<open>b\<close> connected, the roster
  after \<open>b\<close>'s connect has count 2, mode \<open>multi\<close> and both identities. Then the actor
  is created anew and \<open>b\<close> closes: the roster that the timer callback broadcasts, with
  the host listing \<open>a\<close>, has count 1 and mode \<open>solo\<close>, and its \<open>users\<close> array is
  empty although \<open>a\<close> is connected.
\<close>

theorem roster_users_lost_after_reinstantiation:
  "json_get ''connectionCount'' (connectionCountData sampleLibs (at [''a'', ''b'']) ''connect''
       (after (onConnect sampleLibs (at [''a'', ''b'']) ''b''
         (after (onConnect sampleLibs (at [''a'']) ''a'' started))))) = Some (JNum 2)
   \<and> json_get ''mode'' (connectionCountData sampleLibs (at [''a'', ''b'']) ''connect''
       (after (onConnect sampleLibs (at [''a'', ''b'']) ''b''
         (after (onConnect sampleLibs (at [''a'']) ''a'' started))))) = Some (JStr ''multi'')
   \<and> json_get ''users'' (connectionCountData sampleLibs (at [''a'', ''b'']) ''connect''
       (after (onConnect sampleLibs (at [''a'', ''b'']) ''b''
         (after (onConnect sampleLibs (at [''a'']) ''a'' started))))) =
       Some (JArr [JObj [(''id'', JStr ''a''), (''name'', JStr ''Alice''),
                         (''color'', JStr ''#FF6B6B''),
                         (''profile_picture_url'', JStr ''https://i.pravatar.cc/150?u=a'')],
                   JObj [(''id'', JStr ''b''), (''name'', JStr ''Bob''),
                         (''color'', JStr ''#4ECDC4''),
                         (''profile_picture_url'', JStr ''https://i.pravatar.cc/150?u=b'')]])
   \<and> effects (onClose sampleLibs ''b'' (after (onStart sampleLibs None (newInstance 9000))))
       = [SetTimeout DisconnectCount 0]
   \<and> effects (runCallback sampleLibs (at [''a'']) DisconnectCount
         (after (onClose sampleLibs ''b'' (after (onStart sampleLibs None (newInstance 9000))))))
       = [Broadcast (customFrame sampleLibs (JObj [(''type'', JStr ''connection-count''),
            (''data'', connectionCountData sampleLibs (at [''a'']) ''disconnect''
               (after (onClose sampleLibs ''b''
                  (after (onStart sampleLibs None (newInstance 9000))))))])) []]
   \<and> json_get ''connectionCount'' (connectionCountData sampleLibs (at [''a'']) ''disconnect''
         (after (onClose sampleLibs ''b'' (after (onStart sampleLibs None (newInstance 9000))))))
       = Some (JNum 1)
   \<and> json_get ''mode'' (connectionCountData sampleLibs (at [''a'']) ''disconnect''
         (after (onClose sampleLibs ''b'' (after (onStart sampleLibs None (newInstance 9000))))))
       = Some (JStr ''solo'')
   \<and> json_get ''users'' (connectionCountData sampleLibs (at [''a'']) ''disconnect''
         (after (onClose sampleLibs ''b'' (after (onStart sampleLibs None (newInstance 9000))))))
       = Some (JArr [])"
  by code_simp

subsection \<open>Inbound frames\<close>

text \<open>
  C10. A text frame is not decoded: the handler sets the two activity timestamps, writes
  one log line and returns. Nothing is sent, broadcast or stored, and the document, the
  presence map and the user map are as before.
\<close>

theorem text_frame_ignored:
  "after (onMessage L e c (Text str) s) = s\<lparr>lastMessageAt := now e, lastActivityAt := now e\<rparr>
   \<and> doc (after (onMessage L e c (Text str) s)) = doc s
   \<and> customAwareness (after (onMessage L e c (Text str) s)) = customAwareness s
   \<and> connectedUsers (after (onMessage L e c (Text str) s)) = connectedUsers s
   \<and> thrown (onMessage L e c (Text str) s) = None
   \<and> effects (onMessage L e c (Text str) s) =
        (if doc s = None then [ConsoleError ''[YJS-PARTY] ERROR: Doc not initialized!'']
         else [ConsoleLog ''[YJS-PARTY] Received string message:''])"
  by (simp add: onMessage_def Let_def split: option.split)

theorem text_frame_ignored_witness:
  "effects (onMessage sampleLibs (at [''a'']) ''a'' (Text ''hello'') started)
     = [ConsoleLog ''[YJS-PARTY] Received string message:'']
   \<and> after (onMessage sampleLibs (at [''a'']) ''a'' (Text ''hello'') started)
     = started\<lparr>lastMessageAt := 5000, lastActivityAt := 5000\<rparr>"
  using text_frame_ignored [of sampleLibs "at [''a'']" "''a''" "''hello''" started] started_doc
  by (simp add: at_def)




subsection \<open>Sync messages\<close>

text \<open>
  C4. A sync frame is handed to \<^verbatim>\<open>readSyncMessage\<close> together with the document. A
  state vector (sync step 1) is answered to the sender only, with the diff. An update
  frame is applied, broadcast as received to every connection but the sender, and
  stored. A sync step 2 frame carries an update as well, and it is what the
  repository's client sends in answer to the server's own step 1: \<open>a\<close>, holding
  \<open>[7]\<close>, answers the empty state vector with the frame \<open>[0, 1, 1, 7]\<close>. The handler
  applies it, so the document changes, but it rebroadcasts nothing and stores nothing,
  because the branch that does both asks for the update type only.
\<close>

theorem sync_step2_not_relayed:
  "effects (onMessage sampleLibs (at [''a'', ''b'']) ''a'' (Binary [0, 0, 1, 0])
              (started\<lparr>doc := Some [7]\<rparr>))
     = [Send ''a'' [0, 1, 1, 7]]
   \<and> doc (after (onMessage sampleLibs (at [''a'', ''b'']) ''a'' (Binary [0, 2, 1, 7]) started))
     = Some [7]
   \<and> effects (onMessage sampleLibs (at [''a'', ''b'']) ''a'' (Binary [0, 2, 1, 7]) started)
     = [Broadcast [0, 2, 1, 7] [''a''], StoragePut ''yjs-document-state'' [7]]
   \<and> writeVarUint MESSAGE_SYNC @ writeSyncStep2 sampleLibs [7] emptyStateVector = [0, 1, 1, 7]
   \<and> doc (after (onMessage sampleLibs (at [''a'', ''b'']) ''a'' (Binary [0, 1, 1, 7]) started))
     = Some [7]
   \<and> effects (onMessage sampleLibs (at [''a'', ''b'']) ''a'' (Binary [0, 1, 1, 7]) started) = []
   \<and> thrown (onMessage sampleLibs (at [''a'', ''b'']) ''a'' (Binary [0, 1, 1, 7]) started) = None"
  by code_simp

subsection \<open>Application messages\<close>




subsection \<open>Persistence\<close>




subsection \<open>Connect\<close>




subsection \<open>Close\<close>





subsection \<open>Identities\<close>

lemma map_of_restoreUser:
  "map_of (restoreUser (i, x) m) y =
     (if y = x \<and> map_of m x = None then Some (userDataAt (int i) x) else map_of m y)"
  by (simp add: restoreUser_def has_def update_conv')

lemma assigned_Cons:
  "assigned n (x # xs) = (x, userDataAt (int n) x) # assigned (Suc n) xs"
  by (simp add: assigned_def)

text \<open>
  The loop adds, behind the entries already known, the identity by position of every
  connection that has none.
\<close>

lemma map_of_fold_restoreUser:
  "map_of (fold restoreUser (enumerate n xs) users) y =
     (case map_of users y of Some u \<Rightarrow> Some u | None \<Rightarrow> map_of (assigned n xs) y)"
proof (induction xs arbitrary: n users)
  case Nil
  then show ?case by (simp add: assigned_def split: option.split)
next
  case (Cons x xs)
  then show ?case
    using Cons.IH [of "Suc n" "restoreUser (n, x) users"]
    by (auto simp add: map_of_restoreUser assigned_Cons split: option.split)
qed

lemma map_of_assigned_nth:
  "distinct xs \<Longrightarrow> i < length xs \<Longrightarrow>
     map_of (assigned n xs) (xs ! i) = Some (userDataAt (int (n + i)) (xs ! i))"
proof (induction xs arbitrary: n i)
  case Nil
  then show ?case by simp
next
  case (Cons x xs)
  show ?case
  proof (cases i)
    case 0
    then show ?thesis by (simp add: assigned_Cons)
  next
    case (Suc j)
    with Cons.prems have "xs ! j \<noteq> x" "j < length xs" "distinct xs" by auto
    with Cons.IH [of j "Suc n"] Suc show ?thesis by (simp add: assigned_Cons)
  qed
qed

lemma map_of_assigned_mem:
  "x \<in> set xs \<Longrightarrow> map_of (assigned n xs) x \<noteq> None"
  by (induction xs arbitrary: n) (auto simp add: assigned_def)

lemma distinct_fold_restoreUser:
  "distinct (map fst users) \<Longrightarrow> distinct (map fst (fold restoreUser ps users))"
  by (induction ps arbitrary: users) (simp_all add: restoreUser_def distinct_update)

lemma rebuildUsers_has:
  "x \<in> set live \<Longrightarrow> has (rebuildUsers live users) x"
  using map_of_assigned_mem [of x live 0]
  by (auto simp add: has_def rebuildUsers_def map_of_fold_restoreUser split: option.split)

lemma rebuildUsers_keeps:
  "map_of users x = Some u \<Longrightarrow> map_of (rebuildUsers live users) x = Some u"
  by (simp add: rebuildUsers_def map_of_fold_restoreUser)

lemma rebuildUsers_nth:
  "distinct live \<Longrightarrow> i < length live \<Longrightarrow> \<not> has users (live ! i) \<Longrightarrow>
     map_of (rebuildUsers live users) (live ! i) = Some (userDataAt (int i) (live ! i))"
  using map_of_assigned_nth [of live i 0]
  by (simp add: has_def rebuildUsers_def map_of_fold_restoreUser)

lemma connectedUsers_onConnect:
  "doc s = Some d \<Longrightarrow>
   connectedUsers (after (onConnect L e c s)) =
     AList.update c (userDataAt (int (length (getConnections e)) - 1) c)
       (if length (getConnections e) > length (connectedUsers s)
        then rebuildUsers (getConnections e) (connectedUsers s) else connectedUsers s)"
  by (simp add: onConnect_def Let_def)

lemma onConnect_backfills:
  assumes "doc s = Some d" "length (getConnections e) > length (connectedUsers s)"
    and "x \<in> set (getConnections e)"
  shows "has (connectedUsers (after (onConnect L e c s))) x"
  using assms rebuildUsers_has [of x "getConnections e" "connectedUsers s"]
  by (simp add: connectedUsers_onConnect has_def update_conv')

lemma onConnect_keeps:
  assumes "x \<noteq> c" "map_of (connectedUsers s) x = Some u"
  shows "map_of (connectedUsers (after (onConnect L e c s))) x = Some u"
proof (cases "doc s")
  case None
  with assms show ?thesis by (simp add: onConnect_def Let_def)
next
  case (Some d)
  with assms show ?thesis
    by (simp add: connectedUsers_onConnect update_conv' rebuildUsers_keeps)
qed

lemma onConnect_restores_by_index:
  assumes "doc s = Some d" "length (getConnections e) > length (connectedUsers s)"
    and "distinct (getConnections e)" "i < length (getConnections e)"
    and "getConnections e ! i \<noteq> c" "\<not> has (connectedUsers s) (getConnections e ! i)"
  shows "map_of (connectedUsers (after (onConnect L e c s))) (getConnections e ! i)
           = Some (userDataAt (int i) (getConnections e ! i))"
  using assms by (simp add: connectedUsers_onConnect update_conv' rebuildUsers_nth)

lemma onConnect_new:
  assumes "doc s = Some d"
  shows "map_of (connectedUsers (after (onConnect L e c s))) c
           = Some (userDataAt (int (length (getConnections e)) - 1) c)"
  using assms by (simp add: connectedUsers_onConnect update_conv')

lemma onConnect_distinct:
  assumes "distinct (map fst (connectedUsers s))"
  shows "distinct (map fst (connectedUsers (after (onConnect L e c s))))"
proof (cases "doc s")
  case None
  with assms show ?thesis by (simp add: onConnect_def Let_def)
next
  case (Some d)
  with assms show ?thesis
    by (simp add: connectedUsers_onConnect distinct_update rebuildUsers_def
        distinct_fold_restoreUser)
qed

lemma connectedUsers_onMessage:
  "connectedUsers (after (onMessage L e c m s)) = connectedUsers s"
  by (simp add: onMessage_def Let_def onSyncMessage_def onAwarenessMessage_def
      onCustomMessage_def split: option.split ws_message.split sum.split prod.split)

lemma connectedUsers_onClose:
  "x \<noteq> c \<Longrightarrow> map_of (connectedUsers (after (onClose L c s))) x = map_of (connectedUsers s) x"
  by (simp add: onClose_def Let_def has_def delete_conv')

text \<open>
  C2, as the code has it. On a connect event with an initialised document and a live
  enumeration longer than the user map, no exception leaves the handler and afterwards
  every live connection has an entry, one per connection. An entry that existed is kept
  as it was. A connection without entry gets name and color of the palette at its index
  in the enumeration and the avatar derived from its id; the connecting one gets the
  index of the last position. Within one instance, no handler changes the entry of a
  connection other than the one that connects or closes.
\<close>

theorem identity_backfill:
  assumes "doc s = Some d"
    and "length (getConnections e) > length (connectedUsers s)"
  shows "(\<forall>x \<in> set (getConnections e). has (connectedUsers (after (onConnect L e c s))) x)
         \<and> thrown (onConnect L e c s) = None
         \<and> (distinct (map fst (connectedUsers s)) \<longrightarrow>
              distinct (map fst (connectedUsers (after (onConnect L e c s)))))
         \<and> (x \<noteq> c \<and> map_of (connectedUsers s) x = Some u \<longrightarrow>
              map_of (connectedUsers (after (onConnect L e c s))) x = Some u)
         \<and> (distinct (getConnections e) \<and> i < length (getConnections e)
              \<and> getConnections e ! i \<noteq> c \<and> \<not> has (connectedUsers s) (getConnections e ! i) \<longrightarrow>
              map_of (connectedUsers (after (onConnect L e c s))) (getConnections e ! i)
                = Some (userDataAt (int i) (getConnections e ! i)))
         \<and> map_of (connectedUsers (after (onConnect L e c s))) c
              = Some (userDataAt (int (length (getConnections e)) - 1) c)
         \<and> profile_picture_url (userDataAt j x) = ''https://i.pravatar.cc/150?u='' @ x
         \<and> connectedUsers (after (onMessage L e' c' m s)) = connectedUsers s
         \<and> (x \<noteq> c' \<longrightarrow>
              map_of (connectedUsers (after (onClose L c' s))) x = map_of (connectedUsers s) x)
         \<and> after (runCallback L e' DisconnectCount s) = s"
  using assms onConnect_backfills [OF assms, of _ L c] onConnect_keeps [of x c s u L e]
    onConnect_restores_by_index [OF assms, of i c L] onConnect_new [OF assms(1), of L e c]
    onConnect_distinct [of s L e c]
  by (simp add: onConnect_thrown connectedUsers_onMessage connectedUsers_onClose userDataAt_def)

text \<open>
  The actor is created anew (field initialisers, then \<open>onStart\<close>) while \<open>b\<close> and \<open>c\<close>
  are open, and \<open>d\<close> connects: both get an entry again.
\<close>

theorem identity_backfill_witness:
  "doc (after (onStart sampleLibs None (newInstance 9000))) = Some []
   \<and> length (getConnections (at [''b'', ''c'', ''d'']))
       > length (connectedUsers (after (onStart sampleLibs None (newInstance 9000))))
   \<and> has (connectedUsers (after (onConnect sampleLibs (at [''b'', ''c'', ''d'']) ''d''
             (after (onStart sampleLibs None (newInstance 9000)))))) ''b''
   \<and> has (connectedUsers (after (onConnect sampleLibs (at [''b'', ''c'', ''d'']) ''d''
             (after (onStart sampleLibs None (newInstance 9000)))))) ''c''
   \<and> map_of (connectedUsers (after (onConnect sampleLibs (at [''b'', ''c'', ''d'']) ''d''
             (after (onStart sampleLibs None (newInstance 9000)))))) ''d''
       = Some (userDataAt 2 ''d'')"
proof -
  have h1: "doc (after (onStart sampleLibs None (newInstance 9000))) = Some []"
    by (simp add: sample_defs)
  have h2: "length (getConnections (at [''b'', ''c'', ''d'']))
       > length (connectedUsers (after (onStart sampleLibs None (newInstance 9000))))"
    by (simp add: sample_defs)
  from identity_backfill [OF h1 h2, of sampleLibs "''d''"]
  have "has (connectedUsers (after (onConnect sampleLibs (at [''b'', ''c'', ''d'']) ''d''
             (after (onStart sampleLibs None (newInstance 9000)))))) ''b''
   \<and> has (connectedUsers (after (onConnect sampleLibs (at [''b'', ''c'', ''d'']) ''d''
             (after (onStart sampleLibs None (newInstance 9000)))))) ''c''
   \<and> map_of (connectedUsers (after (onConnect sampleLibs (at [''b'', ''c'', ''d'']) ''d''
             (after (onStart sampleLibs None (newInstance 9000)))))) ''d''
       = Some (userDataAt 2 ''d'')"
    by (simp add: at_def)
  with h1 h2 show ?thesis
    by simp
qed

text \<open>
  C2 as stated fails. \<open>a\<close>, \<open>b\<close> and \<open>c\<close> connect in this order: \<open>b\<close> is Bob. Then
  \<open>a\<close> closes, the actor is created anew, and \<open>d\<close> connects while the host lists
  \<open>b\<close>, \<open>c\<close>, \<open>d\<close>: now \<open>b\<close>, still the same open connection, is Alice.
\<close>

theorem identity_changes_after_reinstantiation:
  "map_of (connectedUsers (after (onClose sampleLibs ''a''
      (after (onConnect sampleLibs (at [''a'', ''b'', ''c'']) ''c''
        (after (onConnect sampleLibs (at [''a'', ''b'']) ''b''
          (after (onConnect sampleLibs (at [''a'']) ''a'' started))))))))) ''b''
     = Some \<lparr>name = Some ''Bob'', color = Some ''#4ECDC4'',
             profile_picture_url = ''https://i.pravatar.cc/150?u=b''\<rparr>
   \<and> map_of (connectedUsers (after (onConnect sampleLibs (at [''b'', ''c'', ''d'']) ''d''
        (after (onStart sampleLibs None (newInstance 9000)))))) ''b''
     = Some \<lparr>name = Some ''Alice'', color = Some ''#FF6B6B'',
             profile_picture_url = ''https://i.pravatar.cc/150?u=b''\<rparr>"
  by code_simp

subsection \<open>Client provider\<close>

text \<open>
  C9. On a close of the socket the provider emits the status \<open>disconnected\<close>, clears
  \<open>synced\<close> and registers one timer of 1000 ms whose callback connects again. It does
  so as well after \<open>destroy\<close>: the caller destroys the provider, the socket reports the
  close, the timer fires, and a new socket is opened.
\<close>

theorem destroyed_provider_reconnects:
  "ws_onclose p = (p\<lparr>synced := False\<rparr>,
      [Emit ''status'' (JObj [(''status'', JStr ''disconnected'')]), PSetTimeout Connect 1000])
   \<and> fst (destroy p) = p
   \<and> snd (provider_run [Destroy, Closed, Timer Connect] sampleProvider) =
       [WsClose, AwarenessDestroy,
        Emit ''status'' (JObj [(''status'', JStr ''disconnected'')]),
        PSetTimeout Connect 1000,
        NewWebSocket ''ws://localhost:1999/parties/yjs-party/r1'']"
  by (simp add: ws_onclose_def destroy_def connect_def sampleProvider_def)

end

